theory Spec2Isabelle
  imports Main
begin

section \<open>jimbo-cam: the capture and upload daemon\<close>

text \<open>
  A shallow embedding of \<^verbatim>\<open>jimbo-cam.py\<close>. The daemon talks to a camera
  (picamera2), the file system (pathlib) and an HTTP endpoint (requests). Each of these
  is a field of an explicit world state; whether an external call raises, and what the
  outside world answers, is an input of the model (the record \<open>env\<close>), so that every
  theorem holds for every behaviour of the camera, the disk and the network.
\<close>

subsection \<open>Exceptions\<close>

text \<open>
  The exception classes the program distinguishes. All of them are subclasses of
  Python's \<^verbatim>\<open>Exception\<close>; \<^verbatim>\<open>requests.HTTPError\<close> carries the status code and
  the body text of its response, the others a message.
\<close>

datatype exn =
    HTTPError nat string
  | RequestException string
  | RuntimeError string
  | OSError string
  | ValueError string

subsection \<open>Text: \<^verbatim>\<open>str.strip\<close>, \<^verbatim>\<open>str.lower\<close>, \<^verbatim>\<open>float\<close>, \<^verbatim>\<open>uuid4().hex\<close>\<close>

text \<open>
  Strings are lists of 8-bit characters; the ASCII range is modelled. \<^verbatim>\<open>str.strip()\<close>
  removes leading and trailing white space: tab, line feed, vertical tab, form feed,
  carriage return, the separators 0x1C to 0x1F, and space.
\<close>

definition is_space :: "char \<Rightarrow> bool" where
  "is_space c = (c \<in> set [CHR 0x09, CHR 0x0A, CHR 0x0B, CHR 0x0C, CHR 0x0D,
                          CHR 0x1C, CHR 0x1D, CHR 0x1E, CHR 0x1F, CHR '' ''])"

definition strip :: "string \<Rightarrow> string" where
  "strip s = rev (dropWhile is_space (rev (dropWhile is_space s)))"

definition lower_char :: "char \<Rightarrow> char" where
  "lower_char c =
     (case map_of (zip ''ABCDEFGHIJKLMNOPQRSTUVWXYZ'' ''abcdefghijklmnopqrstuvwxyz'') c of
        Some l \<Rightarrow> l
      | None \<Rightarrow> c)"

definition lower :: "string \<Rightarrow> string" where
  "lower s = map lower_char s"

definition is_digit :: "char \<Rightarrow> bool" where
  "is_digit c = (c \<in> set ''0123456789'')"

definition digit_val :: "char \<Rightarrow> nat" where
  "digit_val c =
     (case map_of (zip ''0123456789'' [0, 1, 2, 3, 4, 5, 6, 7, 8, 9]) c of
        Some n \<Rightarrow> n
      | None \<Rightarrow> 0)"

text \<open>
  The value of \<^verbatim>\<open>float(s)\<close>. \<open>Dec neg m e\<close> stands for the binary64 number nearest
  to \<open>(-1)^neg * m * 10^e\<close>: the rounding itself is not modelled, the decimal numeral
  that was read is kept instead. \<open>Infty neg\<close> is an infinity, \<open>NaN\<close> not-a-number.
\<close>

datatype pyfloat = Dec bool nat int | Infty bool | NaN

text \<open>
  \<^verbatim>\<open>digitpart ::= digit (["_"] digit)*\<close>: \<open>digits s\<close> reads the longest such prefix
  of \<open>s\<close> (possibly empty) and returns its digits with the rest of the string.
\<close>

definition skip_underscore :: "string \<Rightarrow> string" where
  "skip_underscore s =
     (case s of
        u # d # r \<Rightarrow> if u = CHR ''_'' \<and> is_digit d then d # r else s
      | _ \<Rightarrow> s)"

function digits :: "string \<Rightarrow> nat list \<times> string" where
  "digits [] = ([], [])"
| "digits (c # cs) =
     (if is_digit c
      then (case digits (skip_underscore cs) of (ds, r) \<Rightarrow> (digit_val c # ds, r))
      else ([], c # cs))"
  by pat_completeness auto
termination
proof (relation "measure length")
  show "wf (measure length)" by simp
next
  fix c :: char and cs :: string
  assume "is_digit c"
  show "(skip_underscore cs, c # cs) \<in> measure length"
    by (simp add: skip_underscore_def split: list.splits)
qed

definition numeral_of :: "nat list \<Rightarrow> nat" where
  "numeral_of ds = foldl (\<lambda>a d. 10 * a + d) 0 ds"

definition split_sign :: "string \<Rightarrow> bool \<times> string" where
  "split_sign s =
     (case s of
        [] \<Rightarrow> (False, s)
      | c # r \<Rightarrow> if c = CHR ''-'' then (True, r)
                 else if c = CHR ''+'' then (False, r)
                 else (False, s))"

text \<open>
  \<^verbatim>\<open>exponent ::= ("e" | "E") ["+" | "-"] digitpart\<close>, read at the end of the
  numeral: the result is the exponent when the rest of the string is empty (exponent 0)
  or exactly one exponent, and \<open>None\<close> otherwise.
\<close>

definition exponent :: "string \<Rightarrow> int option" where
  "exponent s =
     (case s of
        [] \<Rightarrow> Some 0
      | c # r \<Rightarrow>
          if c = CHR ''e'' \<or> c = CHR ''E''
          then (case split_sign r of
                  (neg, r') \<Rightarrow>
                    (case digits r' of
                       (ds, rest) \<Rightarrow>
                         if ds = [] \<or> rest \<noteq> [] then None
                         else Some (if neg then - int (numeral_of ds)
                                    else int (numeral_of ds))))
          else None)"

text \<open>
  \<^verbatim>\<open>float(s)\<close> for a string: white space is stripped, then the string must be an
  optional sign followed by \<^verbatim>\<open>inf\<close>, \<^verbatim>\<open>infinity\<close> or \<^verbatim>\<open>nan\<close> (in any case), or by
  \<^verbatim>\<open>[digitpart] "." digitpart | digitpart ["."]\<close> and an optional exponent.
  \<open>None\<close> is the \<^verbatim>\<open>ValueError\<close> that \<^verbatim>\<open>float\<close> raises.
\<close>

definition py_float :: "string \<Rightarrow> pyfloat option" where
  "py_float s =
     (case split_sign (strip s) of
        (neg, body) \<Rightarrow>
          if lower body = ''inf'' \<or> lower body = ''infinity'' then Some (Infty neg)
          else if lower body = ''nan'' then Some NaN
          else (case digits body of
                  (ip, r1) \<Rightarrow>
                    (case (case r1 of
                             [] \<Rightarrow> ([], r1)
                           | c # r \<Rightarrow> if c = CHR ''.'' then digits r else ([], r1)) of
                       (fp, r2) \<Rightarrow>
                         if ip = [] \<and> fp = [] then None
                         else (case exponent r2 of
                                 None \<Rightarrow> None
                               | Some e \<Rightarrow>
                                   Some (Dec neg (numeral_of (ip @ fp))
                                           (e - int (length fp)))))))"

text \<open>
  \<^verbatim>\<open>uuid.uuid4().hex\<close>: the 128-bit integer of the identifier printed as 32 lower-case
  hexadecimal digits, most significant first. The random integer is an input.
\<close>

definition hex_digit :: "nat \<Rightarrow> char" where
  "hex_digit n = ''0123456789abcdef'' ! (n mod 16)"

definition hex32 :: "nat \<Rightarrow> string" where
  "hex32 u = map (\<lambda>i. hex_digit ((u mod 2 ^ 128) div 16 ^ i)) (rev [0..<32])"

subsection \<open>Configuration\<close>

text \<open>
  The module-level constants, read from the environment when the module is loaded
  (\<^verbatim>\<open>PRUSA_TOKEN\<close>, \<^verbatim>\<open>PRUSA_FINGERPRINT\<close> and \<^verbatim>\<open>PRUSA_AF_POSITION\<close> stripped,
  \<^verbatim>\<open>PRUSA_AF_MODE\<close> stripped and lower-cased, the numbers converted by \<^verbatim>\<open>int\<close>).
  \<^verbatim>\<open>FINGERPRINT_FILE\<close> is \<^verbatim>\<open>fingerprint.txt\<close> in \<^verbatim>\<open>CONFIG_DIR\<close>, below the home
  directory. The HTTP timeout is a float handed to \<^verbatim>\<open>requests\<close> and is not modelled.
\<close>

record config =
  PRUSA_URL :: string
  PRUSA_TOKEN :: string
  PRUSA_FINGERPRINT :: string
  INTERVAL_SEC :: int
  WIDTH :: int
  HEIGHT :: int
  JPEG_QUALITY :: int
  PRUSA_AF_MODE :: string
  PRUSA_AF_POSITION :: string
  CONFIG_DIR :: string
  FINGERPRINT_FILE :: string

subsection \<open>The world: files, cameras, the stop flag, the log\<close>

text \<open>\<^verbatim>\<open>controls.AfModeEnum\<close> of libcamera.\<close>

datatype AfModeEnum = Manual | Auto | Continuous

text \<open>
  A \<^verbatim>\<open>Picamera2\<close> object: whether it has been started and not stopped, the controls
  given to \<^verbatim>\<open>set_controls\<close>, the still configuration (size) given to \<^verbatim>\<open>configure\<close>, and
  \<^verbatim>\<open>options["quality"]\<close>.
\<close>

record camera =
  started :: bool
  AfMode :: "AfModeEnum option"
  LensPosition :: "pyfloat option"
  still_size :: "(int \<times> int) option"
  quality :: "int option"

text \<open>The file-system operations the program performed, in order.\<close>

datatype fs_op =
    MkdirOp string
  | ExistsOp string
  | ReadOp string
  | WriteOp string string
  | UnlinkOp string

text \<open>
  The records of the logger at level INFO and above (the \<^verbatim>\<open>logger.debug\<close> calls print
  nothing at the configured level), one constructor per logging call of the source,
  carrying the values the message is formatted from.
\<close>

datatype log_record =
    LoadedFingerprint string
  | GeneratedFingerprint string
  | StartingCamera
  | CapturedImage nat
  | Uploading
  | UploadSuccessful nat
  | ConfiguringAutofocus string "string option"
  | TerminationSignal
  | MissingToken
  | UsingFingerprint string
  | UploaderInitialized string int
  | HttpError nat string
  | UnexpectedError exn
  | NextSnapshot int
  | Exiting
  | StartupError exn

text \<open>
  The state the program acts on: the content of each file (by path), the trace of
  file-system operations, the \<^verbatim>\<open>Picamera2\<close> objects created so far (an object is named
  by its position in the list), the global \<^verbatim>\<open>running\<close>, and the log.
\<close>

record world =
  files :: "string \<rightharpoonup> string"
  fsops :: "fs_op list"
  cams :: "camera list"
  running :: bool
  logs :: "log_record list"

subsection \<open>The environment of one step\<close>

text \<open>The external calls of the program that can raise.\<close>

datatype call =
    Mkdir
  | ReadText
  | WriteText
  | NewPicamera2
  | SetControls
  | CreateStillConfiguration
  | Configure
  | Start
  | CaptureFile
  | Stop
  | ReadBytes
  | Unlink

text \<open>A request as \<^verbatim>\<open>requests.put\<close> receives it, and the response: status code and text.\<close>

record request =
  url :: string
  headers :: "(string \<times> string) list"
  data :: string

record response =
  status_code :: nat
  text_of :: string

text \<open>
  What the outside world does during one step of the program (the start-up, or one
  cycle of the loop): which external calls raise and with what exception, the random
  128-bit integer of \<^verbatim>\<open>uuid4\<close>, the JPEG the camera encodes, the answer of the HTTP
  exchange (a transport exception or a response), and when a termination signal is
  delivered: while the capture and upload are in progress, or during the \<open>k\<close>-th
  one-second sleep of the wait (counted from 0).
\<close>

record env =
  raises :: "call \<Rightarrow> exn option"
  uuid4 :: nat
  image :: string
  put :: "request \<Rightarrow> exn + response"
  sig_work :: bool
  sig_wait :: "nat option"

subsection \<open>Computations that change the world and may raise\<close>

type_synonym 'a prog = "world \<Rightarrow> (exn + 'a) \<times> world"

definition ret :: "'a \<Rightarrow> 'a prog" where
  "ret x w = (Inr x, w)"

definition raise :: "exn \<Rightarrow> 'a prog" where
  "raise e w = (Inl e, w)"

text \<open>Sequencing: an exception of the first computation skips the second.\<close>

definition bnd :: "'a prog \<Rightarrow> ('a \<Rightarrow> 'b prog) \<Rightarrow> 'b prog" where
  "bnd m f w = (case m w of (Inl e, w') \<Rightarrow> (Inl e, w') | (Inr x, w') \<Rightarrow> f x w')"

text \<open>
  An external call: it raises when the environment says so, and then has no effect;
  otherwise its effect on the world takes place.
\<close>

definition ext :: "env \<Rightarrow> call \<Rightarrow> (world \<Rightarrow> world) \<Rightarrow> unit prog" where
  "ext ev c effect w =
     (case raises ev c of Some e \<Rightarrow> (Inl e, w) | None \<Rightarrow> (Inr (), effect w))"

definition logger :: "log_record \<Rightarrow> world \<Rightarrow> world" where
  "logger r w = w\<lparr>logs := logs w @ [r]\<rparr>"

definition fsop :: "fs_op \<Rightarrow> world \<Rightarrow> world" where
  "fsop p w = w\<lparr>fsops := fsops w @ [p]\<rparr>"

definition upd_cam :: "nat \<Rightarrow> (camera \<Rightarrow> camera) \<Rightarrow> world \<Rightarrow> world" where
  "upd_cam picam f w = w\<lparr>cams := (cams w)[picam := f (cams w ! picam)]\<rparr>"

definition info :: "log_record \<Rightarrow> unit prog" where
  "info r w = (Inr (), logger r w)"

definition error :: "log_record \<Rightarrow> unit prog" where
  "error r w = (Inr (), logger r w)"

subsection \<open>The calls into pathlib, picamera2 and requests\<close>

text \<open>
  \<^verbatim>\<open>Path.mkdir(parents=True, exist_ok=True)\<close>, \<^verbatim>\<open>Path.exists()\<close>, \<^verbatim>\<open>Path.read_text()\<close>
  and \<^verbatim>\<open>Path.read_bytes()\<close> (both raise \<^verbatim>\<open>FileNotFoundError\<close>, an \<^verbatim>\<open>OSError\<close>, when
  there is no such file), \<^verbatim>\<open>Path.write_text\<close>, \<^verbatim>\<open>Path.unlink(missing_ok=True)\<close>.
\<close>

definition mkdir :: "env \<Rightarrow> string \<Rightarrow> unit prog" where
  "mkdir ev p = ext ev Mkdir (fsop (MkdirOp p))"

definition exists_path :: "string \<Rightarrow> bool prog" where
  "exists_path p w = (Inr (files w p \<noteq> None), fsop (ExistsOp p) w)"

definition read_file :: "env \<Rightarrow> call \<Rightarrow> string \<Rightarrow> string prog" where
  "read_file ev c p w =
     (case raises ev c of
        Some e \<Rightarrow> (Inl e, w)
      | None \<Rightarrow>
          (case files w p of
             None \<Rightarrow> (Inl (OSError ''No such file or directory''), w)
           | Some content \<Rightarrow> (Inr content, fsop (ReadOp p) w)))"

definition read_text :: "env \<Rightarrow> string \<Rightarrow> string prog" where
  "read_text ev p = read_file ev ReadText p"

definition read_bytes :: "env \<Rightarrow> string \<Rightarrow> string prog" where
  "read_bytes ev p = read_file ev ReadBytes p"

definition write_file :: "string \<Rightarrow> string \<Rightarrow> world \<Rightarrow> world" where
  "write_file p content w = fsop (WriteOp p content) (w\<lparr>files := (files w)(p \<mapsto> content)\<rparr>)"

definition write_text :: "env \<Rightarrow> string \<Rightarrow> string \<Rightarrow> unit prog" where
  "write_text ev p content = ext ev WriteText (write_file p content)"

definition unlink :: "env \<Rightarrow> string \<Rightarrow> unit prog" where
  "unlink ev p = ext ev Unlink (\<lambda>w. fsop (UnlinkOp p) (w\<lparr>files := (files w)(p := None)\<rparr>))"

text \<open>
  \<^verbatim>\<open>Picamera2()\<close> makes a new camera object, not started, with no controls set; the
  result is the name of the object.
\<close>

definition new_camera :: camera where
  "new_camera =
     \<lparr>started = False, AfMode = None, LensPosition = None, still_size = None,
      quality = None\<rparr>"

definition Picamera2 :: "env \<Rightarrow> nat prog" where
  "Picamera2 ev w =
     (case raises ev NewPicamera2 of
        Some e \<Rightarrow> (Inl e, w)
      | None \<Rightarrow> (Inr (length (cams w)), w\<lparr>cams := cams w @ [new_camera]\<rparr>))"

text \<open>
  \<^verbatim>\<open>picam.set_controls({"AfMode": m})\<close> and
  \<^verbatim>\<open>picam.set_controls({"AfMode": m, "LensPosition": x})\<close>: the controls named in the
  dictionary are set, the others keep their value.
\<close>

definition set_controls :: "env \<Rightarrow> nat \<Rightarrow> AfModeEnum \<Rightarrow> pyfloat option \<Rightarrow> unit prog" where
  "set_controls ev picam m lens =
     ext ev SetControls
       (upd_cam picam (\<lambda>c. case lens of
                              None \<Rightarrow> c\<lparr>AfMode := Some m\<rparr>
                            | Some x \<Rightarrow> c\<lparr>AfMode := Some m, LensPosition := Some x\<rparr>))"

definition create_still_configuration :: "env \<Rightarrow> nat \<Rightarrow> int \<times> int \<Rightarrow> (int \<times> int) prog" where
  "create_still_configuration ev picam sz =
     bnd (ext ev CreateStillConfiguration (\<lambda>w. w)) (\<lambda>_. ret sz)"

definition configure :: "env \<Rightarrow> nat \<Rightarrow> int \<times> int \<Rightarrow> unit prog" where
  "configure ev picam cfg = ext ev Configure (upd_cam picam (\<lambda>c. c\<lparr>still_size := Some cfg\<rparr>))"

definition set_quality :: "nat \<Rightarrow> int \<Rightarrow> unit prog" where
  "set_quality picam q w = (Inr (), upd_cam picam (\<lambda>c. c\<lparr>quality := Some q\<rparr>) w)"

definition start :: "env \<Rightarrow> nat \<Rightarrow> unit prog" where
  "start ev picam = ext ev Start (upd_cam picam (\<lambda>c. c\<lparr>started := True\<rparr>))"

definition stop :: "env \<Rightarrow> nat \<Rightarrow> unit prog" where
  "stop ev picam = ext ev Stop (upd_cam picam (\<lambda>c. c\<lparr>started := False\<rparr>))"

text \<open>\<^verbatim>\<open>picam.capture_file(path)\<close> writes the encoded image of this step to the path.\<close>

definition capture_file :: "env \<Rightarrow> nat \<Rightarrow> string \<Rightarrow> unit prog" where
  "capture_file ev picam p = ext ev CaptureFile (write_file p (image ev))"

text \<open>
  \<^verbatim>\<open>resp.raise_for_status()\<close> of requests raises \<^verbatim>\<open>HTTPError\<close> for the status codes
  400 to 599 and returns for every other code.
\<close>

definition raise_for_status :: "response \<Rightarrow> unit prog" where
  "raise_for_status resp =
     (if 400 \<le> status_code resp \<and> status_code resp < 600
      then raise (HTTPError (status_code resp) (text_of resp))
      else ret ())"

definition requests_put :: "env \<Rightarrow> request \<Rightarrow> response prog" where
  "requests_put ev req w = (put ev req, w)"

subsection \<open>\<^verbatim>\<open>get_or_create_fingerprint\<close>\<close>

text \<open>
  The early \<^verbatim>\<open>return fp\<close> of the source is the value \<open>Some fp\<close> of the first part;
  \<open>None\<close> falls through to the generation of a new fingerprint.
\<close>

definition get_or_create_fingerprint :: "config \<Rightarrow> env \<Rightarrow> string prog" where
  "get_or_create_fingerprint cfg ev =
     bnd (mkdir ev (CONFIG_DIR cfg)) (\<lambda>_.
     bnd (bnd (exists_path (FINGERPRINT_FILE cfg)) (\<lambda>ex.
            if ex
            then bnd (read_text ev (FINGERPRINT_FILE cfg)) (\<lambda>content.
                   if strip content \<noteq> []
                   then bnd (info (LoadedFingerprint (strip content))) (\<lambda>_.
                          ret (Some (strip content)))
                   else ret None)
            else ret None)) (\<lambda>loaded.
     case loaded of
       Some fp \<Rightarrow> ret fp
     | None \<Rightarrow>
         bnd (write_text ev (FINGERPRINT_FILE cfg) (hex32 (uuid4 ev))) (\<lambda>_.
         bnd (info (GeneratedFingerprint (hex32 (uuid4 ev)))) (\<lambda>_.
         ret (hex32 (uuid4 ev))))))"

text \<open>
  Line 243 of the source, \<^verbatim>\<open>PRUSA_FINGERPRINT or get_or_create_fingerprint()\<close>: the
  right operand is evaluated only when the left one is the empty string.
\<close>

definition obtain_fingerprint :: "config \<Rightarrow> env \<Rightarrow> string prog" where
  "obtain_fingerprint cfg ev =
     (if PRUSA_FINGERPRINT cfg \<noteq> [] then ret (PRUSA_FINGERPRINT cfg)
      else get_or_create_fingerprint cfg ev)"

subsection \<open>\<^verbatim>\<open>capture_jpeg\<close>\<close>

definition tmp :: string where
  "tmp = ''/tmp/prusa_snapshot.jpg''"

definition capture_jpeg :: "config \<Rightarrow> env \<Rightarrow> nat \<Rightarrow> string prog" where
  "capture_jpeg cfg ev picam =
     bnd (create_still_configuration ev picam (WIDTH cfg, HEIGHT cfg)) (\<lambda>c.
     bnd (configure ev picam c) (\<lambda>_.
     bnd (set_quality picam (JPEG_QUALITY cfg)) (\<lambda>_.
     bnd (info StartingCamera) (\<lambda>_.
     bnd (start ev picam) (\<lambda>_.
     bnd (capture_file ev picam tmp) (\<lambda>_.
     bnd (stop ev picam) (\<lambda>_.
     bnd (read_bytes ev tmp) (\<lambda>data.
     bnd (unlink ev tmp) (\<lambda>_.
     bnd (info (CapturedImage (length data))) (\<lambda>_.
     ret data))))))))))"

subsection \<open>\<^verbatim>\<open>upload_snapshot\<close>\<close>

definition upload_snapshot :: "config \<Rightarrow> env \<Rightarrow> string \<Rightarrow> string \<Rightarrow> string \<Rightarrow> unit prog" where
  "upload_snapshot cfg ev jpeg_bytes token fingerprint =
     bnd (info Uploading) (\<lambda>_.
     bnd (requests_put ev
            \<lparr>url = PRUSA_URL cfg,
             headers = [(''accept'', ''*/*''), (''content-type'', ''image/jpeg''),
                        (''token'', token), (''fingerprint'', fingerprint)],
             data = jpeg_bytes\<rparr>) (\<lambda>resp.
     bnd (raise_for_status resp) (\<lambda>_.
     info (UploadSuccessful (status_code resp)))))"

subsection \<open>\<^verbatim>\<open>configure_autofocus\<close>\<close>

text \<open>
  \<open>cli_af\<close> is the value of the option \<^verbatim>\<open>--af\<close>: \<open>None\<close> when the option is absent,
  otherwise the list of its arguments. \<^verbatim>\<open>if cli_af\<close> holds for a non-empty list;
  \<^verbatim>\<open>if not pos\<close> holds for \<^verbatim>\<open>None\<close> and for the empty string.
\<close>

definition af_request :: "config \<Rightarrow> string list option \<Rightarrow> string \<times> string option" where
  "af_request cfg cli_af =
     (case cli_af of
        Some (m # rest) \<Rightarrow> (lower m, case rest of [] \<Rightarrow> None | p # _ \<Rightarrow> Some p)
      | _ \<Rightarrow> (PRUSA_AF_MODE cfg,
              if PRUSA_AF_POSITION cfg \<noteq> [] then Some (PRUSA_AF_POSITION cfg) else None))"

definition configure_autofocus :: "config \<Rightarrow> env \<Rightarrow> nat \<Rightarrow> string list option \<Rightarrow> unit prog" where
  "configure_autofocus cfg ev picam cli_af =
     (case af_request cfg cli_af of
        (mode, pos) \<Rightarrow>
          bnd (info (ConfiguringAutofocus mode pos)) (\<lambda>_.
          if mode \<in> set [''cont'', ''continuous'']
          then set_controls ev picam Continuous None
          else if mode \<in> set [''auto'', ''af'']
          then set_controls ev picam Auto None
          else if mode \<in> set [''man'', ''manual'']
          then (case (if pos = Some [] then None else pos) of
                  None \<Rightarrow>
                    raise (ValueError ''Manual mode requires a lens position, e.g. --af man 1.2'')
                | Some p \<Rightarrow>
                    (case py_float p of
                       None \<Rightarrow> raise (ValueError (''Invalid manual lens position: '' @ p))
                     | Some lens_pos \<Rightarrow> set_controls ev picam Manual (Some lens_pos)))
          else raise (ValueError (''Unknown autofocus mode: '' @ mode))))"

subsection \<open>The signal handler and the loop of \<^verbatim>\<open>main\<close>\<close>

text \<open>\<^verbatim>\<open>_stop\<close>, installed for SIGINT and SIGTERM.\<close>

definition stop_handler :: "world \<Rightarrow> world" where
  "stop_handler w = (logger TerminationSignal w)\<lparr>running := False\<rparr>"

text \<open>
  The wait at the end of a cycle, \<^verbatim>\<open>for _ in range(backoff)\<close>: \<open>n\<close> iterations are
  left, \<open>k\<close> sleeps of one second have been made. A signal delivered during a sleep
  runs the handler; the sleep then completes.
\<close>

fun wait_loop :: "env \<Rightarrow> nat \<Rightarrow> nat \<Rightarrow> world \<Rightarrow> world" where
  "wait_loop ev 0 k w = w"
| "wait_loop ev (Suc n) k w =
     (if \<not> running w then w
      else wait_loop ev n (Suc k) (if sig_wait ev = Some k then stop_handler w else w))"

text \<open>
  One iteration of \<^verbatim>\<open>while running\<close>: the \<^verbatim>\<open>try\<close> statement (\<open>try_body\<close> is
  its body up to the assignment to \<open>backoff\<close>) with its two handlers, then the wait. \<open>backoff\<close> is the value of the local variable before the iteration;
  the result carries its value after. A signal that arrives while the capture and
  the upload are in progress runs the handler once the \<^verbatim>\<open>try\<close> statement is over.
\<close>

definition try_body :: "config \<Rightarrow> env \<Rightarrow> nat \<Rightarrow> string \<Rightarrow> unit prog" where
  "try_body cfg ev picam fingerprint =
     bnd (capture_jpeg cfg ev picam) (\<lambda>jpeg.
     upload_snapshot cfg ev jpeg (PRUSA_TOKEN cfg) fingerprint)"

definition cycle :: "config \<Rightarrow> env \<Rightarrow> nat \<Rightarrow> string \<Rightarrow> int \<Rightarrow> world \<Rightarrow> int \<times> world" where
  "cycle cfg ev picam fingerprint backoff w =
     (case (case try_body cfg ev picam fingerprint w of
              (Inr _, w1) \<Rightarrow> (INTERVAL_SEC cfg, w1)
            | (Inl (HTTPError code body), w1) \<Rightarrow>
                (min (max (INTERVAL_SEC cfg * 3) 15) 120, logger (HttpError code body) w1)
            | (Inl e, w1) \<Rightarrow>
                (min (max (INTERVAL_SEC cfg * 3) 15) 120, logger (UnexpectedError e) w1)) of
        (backoff', w2) \<Rightarrow>
          (backoff',
           wait_loop ev (nat backoff') 0
             (logger (NextSnapshot backoff') (if sig_work ev then stop_handler w2 else w2))))"

text \<open>
  How far a run has got: the loop is still going when the observed steps of the
  environment are used up, \<^verbatim>\<open>main\<close> has returned, an exception left \<^verbatim>\<open>main\<close>, or
  \<^verbatim>\<open>SystemExit\<close> was raised (it is not an \<^verbatim>\<open>Exception\<close>).
\<close>

datatype status = Looping | Returned | Raised exn | SystemExit string

text \<open>
  The loop, run against the environments of as many cycles as are observed. It leaves
  only through the test \<^verbatim>\<open>while running\<close>.
\<close>

fun main_loop :: "config \<Rightarrow> env list \<Rightarrow> nat \<Rightarrow> string \<Rightarrow> int \<Rightarrow> world \<Rightarrow> status \<times> int \<times> world" where
  "main_loop cfg [] picam fingerprint backoff w =
     (if running w then (Looping, backoff, w) else (Returned, backoff, logger Exiting w))"
| "main_loop cfg (ev # evs) picam fingerprint backoff w =
     (if running w
      then (case cycle cfg ev picam fingerprint backoff w of
              (backoff', w') \<Rightarrow> main_loop cfg evs picam fingerprint backoff' w')
      else (Returned, backoff, logger Exiting w))"

subsection \<open>\<^verbatim>\<open>main\<close> and the script\<close>

text \<open>\<open>ev0\<close> is the environment of the start-up of \<^verbatim>\<open>main\<close>, \<open>evs\<close> those of the cycles.\<close>

definition main :: "config \<Rightarrow> env \<Rightarrow> env list \<Rightarrow> world \<Rightarrow> status \<times> world" where
  "main cfg ev0 evs w =
     (if PRUSA_TOKEN cfg = []
      then (SystemExit ''You must set PRUSA_TOKEN environment variable.'', logger MissingToken w)
      else (case bnd (obtain_fingerprint cfg ev0) (\<lambda>fingerprint.
                 bnd (info (UsingFingerprint fingerprint)) (\<lambda>_.
                 bnd (Picamera2 ev0) (\<lambda>picam.
                 bnd (set_controls ev0 picam Continuous None) (\<lambda>_.
                 bnd (info (UploaderInitialized (PRUSA_URL cfg) (INTERVAL_SEC cfg))) (\<lambda>_.
                 ret (fingerprint, picam)))))) w of
              (Inl e, w1) \<Rightarrow> (Raised e, w1)
            | (Inr (fingerprint, picam), w1) \<Rightarrow>
                (case main_loop cfg evs picam fingerprint (INTERVAL_SEC cfg) w1 of
                   (st, _, w2) \<Rightarrow> (st, w2))))"

text \<open>
  The script without \<^verbatim>\<open>--setup\<close>: a camera object is made and the autofocus is
  configured on it, then \<^verbatim>\<open>main\<close> runs. An \<^verbatim>\<open>Exception\<close> is logged and ends the process
  with status 1; so does \<^verbatim>\<open>SystemExit\<close> with a message. \<open>eva\<close> is the environment of the
  two calls before \<^verbatim>\<open>main\<close>. The result is the exit status, or \<open>None\<close> while the loop is
  still going.
\<close>

definition script :: "config \<Rightarrow> string list option \<Rightarrow> env \<Rightarrow> env \<Rightarrow> env list \<Rightarrow> world \<Rightarrow> nat option \<times> world" where
  "script cfg cli_af eva ev0 evs w =
     (case bnd (Picamera2 eva) (\<lambda>picam. configure_autofocus cfg eva picam cli_af) w of
        (Inl e, w1) \<Rightarrow> (Some 1, logger (StartupError e) w1)
      | (Inr _, w1) \<Rightarrow>
          (case main cfg ev0 evs w1 of
             (Looping, w2) \<Rightarrow> (None, w2)
           | (Returned, w2) \<Rightarrow> (Some 0, w2)
           | (Raised e, w2) \<Rightarrow> (Some 1, logger (StartupError e) w2)
           | (SystemExit msg, w2) \<Rightarrow> (Some 1, w2)))"

text \<open>The world when the script starts: given files, no camera object, \<^verbatim>\<open>running = True\<close>.\<close>

definition initial_world :: "(string \<rightharpoonup> string) \<Rightarrow> world" where
  "initial_world fs = \<lparr>files = fs, fsops = [], cams = [], running = True, logs = []\<rparr>"

text \<open>An environment in which no call raises and no signal arrives.\<close>

definition calm :: "nat \<Rightarrow> string \<Rightarrow> (request \<Rightarrow> exn + response) \<Rightarrow> env" where
  "calm u img answer =
     \<lparr>raises = (\<lambda>c. None), uuid4 = u, image = img, put = answer,
      sig_work = False, sig_wait = None\<rparr>"

subsection \<open>Concrete runs\<close>

text \<open>
  The default configuration of the source with a token, a world holding one camera
  object, and some environments: a server answering with a fixed status code, a
  request that times out, a single external call that raises.
\<close>

definition cfg0 :: config where
  "cfg0 =
     \<lparr>PRUSA_URL = ''https://webcam.connect.prusa3d.com/c/snapshot'',
      PRUSA_TOKEN = ''secret'', PRUSA_FINGERPRINT = [], INTERVAL_SEC = 10,
      WIDTH = 1280, HEIGHT = 720, JPEG_QUALITY = 85,
      PRUSA_AF_MODE = ''cont'', PRUSA_AF_POSITION = [],
      CONFIG_DIR = ''/home/pi/.config/jimbo-cam'',
      FINGERPRINT_FILE = ''/home/pi/.config/jimbo-cam/fingerprint.txt''\<rparr>"

definition one_camera :: world where
  "one_camera = (initial_world Map.empty)\<lparr>cams := [new_camera]\<rparr>"

definition answer :: "nat \<Rightarrow> string \<Rightarrow> request \<Rightarrow> exn + response" where
  "answer code body req = Inr \<lparr>status_code = code, text_of = body\<rparr>"

definition timed_out :: "request \<Rightarrow> exn + response" where
  "timed_out req = Inl (RequestException ''Read timed out.'')"

definition only :: "call \<Rightarrow> exn \<Rightarrow> call \<Rightarrow> exn option" where
  "only c e c' = (if c' = c then Some e else None)"

definition ev_ok :: env where
  "ev_ok = calm 255 ''JPEG'' (answer 200 ''OK'')"

definition ev_401 :: env where
  "ev_401 = calm 255 ''JPEG'' (answer 401 ''Unauthorized'')"

definition ev_timeout :: env where
  "ev_timeout = calm 255 ''JPEG'' timed_out"

definition ev_capture_fails :: env where
  "ev_capture_fails = (ev_ok\<lparr>raises := only CaptureFile (RuntimeError ''Camera frontend has timed out'')\<rparr>)"

definition ev_read_fails :: env where
  "ev_read_fails = (ev_ok\<lparr>raises := only ReadBytes (OSError ''Input/output error'')\<rparr>)"

subsection \<open>Notions of the specification\<close>


text \<open>
  The invariant the specification gives for the backoff: it lies between the base
  interval and the maximal interval, the upper bound of the escalation.
\<close>

definition maxInterval :: int where
  "maxInterval = 120"

definition within_bounds :: "config \<Rightarrow> int \<Rightarrow> bool" where
  "within_bounds cfg backoff = (INTERVAL_SEC cfg \<le> backoff \<and> backoff \<le> maxInterval)"

text \<open>The log records \<^verbatim>\<open>Next snapshot in ...s\<close>, one at the end of each cycle.\<close>

definition is_next :: "log_record \<Rightarrow> bool" where
  "is_next r = (case r of NextSnapshot _ \<Rightarrow> True | _ \<Rightarrow> False)"

text \<open>A base interval above the upper bound of the escalation.\<close>

definition cfg200 :: config where
  "cfg200 = cfg0\<lparr>INTERVAL_SEC := 200\<rparr>"

section \<open>Properties\<close>

subsection \<open>Unfolding\<close>

lemmas prog_simps = ret_def raise_def bnd_def ext_def info_def error_def logger_def fsop_def

lemmas capture_simps = capture_jpeg_def create_still_configuration_def configure_def
  set_quality_def start_def capture_file_def stop_def read_bytes_def read_file_def unlink_def
  write_file_def upd_cam_def

lemmas fingerprint_simps = get_or_create_fingerprint_def mkdir_def exists_path_def
  read_text_def read_file_def write_text_def write_file_def

lemmas upload_simps = upload_snapshot_def requests_put_def raise_for_status_def

lemmas example_simps = cfg0_def one_camera_def initial_world_def new_camera_def answer_def
  timed_out_def only_def ev_ok_def ev_401_def ev_timeout_def ev_capture_fails_def
  ev_read_fails_def calm_def

subsection \<open>The identity\<close>

lemma dropWhile_none: "\<forall>c \<in> set s. \<not> P c \<Longrightarrow> dropWhile P s = s"
  by (cases s) auto

lemma strip_no_space: "\<forall>c \<in> set s. \<not> is_space c \<Longrightarrow> strip s = s"
  by (simp add: strip_def dropWhile_none)

lemma hex_digit_mem: "hex_digit n \<in> set ''0123456789abcdef''"
  unfolding hex_digit_def by (rule nth_mem) simp

lemma hex_digit_no_space: "\<not> is_space (hex_digit n)"
  using hex_digit_mem [of n] by (auto simp: is_space_def)

lemma strip_hex32: "strip (hex32 u) = hex32 u"
  by (rule strip_no_space) (auto simp: hex32_def hex_digit_no_space)

lemma hex32_nonempty: "hex32 u \<noteq> []"
  by (simp add: hex32_def)

lemma hex32_255: "hex32 255 = ''000000000000000000000000000000ff''"
  by (simp add: hex32_def hex_digit_def upt_rec)

text \<open>After a call that returned, the file holds the fingerprint that was returned.\<close>

lemma fingerprint_stored:
  assumes "fst (get_or_create_fingerprint cfg ev w) = Inr fp"
  shows "\<exists>content. files (snd (get_or_create_fingerprint cfg ev w)) (FINGERPRINT_FILE cfg)
                      = Some content \<and> strip content = fp \<and> fp \<noteq> []"
  using assms
  by (auto simp: fingerprint_simps prog_simps strip_hex32 hex32_nonempty
           split: option.splits if_splits)

text \<open>A call that finds a non-blank file reads it and writes nothing.\<close>

lemma fingerprint_loaded:
  assumes "files w (FINGERPRINT_FILE cfg) = Some content" and "strip content \<noteq> []"
      and "raises ev Mkdir = None" and "raises ev ReadText = None"
  shows "get_or_create_fingerprint cfg ev w =
           (Inr (strip content),
            w\<lparr>fsops := fsops w @ [MkdirOp (CONFIG_DIR cfg), ExistsOp (FINGERPRINT_FILE cfg),
                                   ReadOp (FINGERPRINT_FILE cfg)],
              logs := logs w @ [LoadedFingerprint (strip content)]\<rparr>)"
  using assms by (simp add: fingerprint_simps prog_simps)

text \<open>
  Claim C8. When the identity override \<^verbatim>\<open>PRUSA_FINGERPRINT\<close> is not empty, the identity
  used by \<^verbatim>\<open>main\<close> is that very string and the world is left as it was: no file is
  read or written, no file-system operation takes place at all.
\<close>

theorem explicit_fingerprint_verbatim:
  assumes "PRUSA_FINGERPRINT cfg \<noteq> []"
  shows "obtain_fingerprint cfg ev w = (Inr (PRUSA_FINGERPRINT cfg), w)"
  using assms by (simp add: obtain_fingerprint_def ret_def)

theorem explicit_fingerprint_verbatim_witness:
  "PRUSA_FINGERPRINT (cfg0\<lparr>PRUSA_FINGERPRINT := ''printer-7''\<rparr>) \<noteq> []
   \<and> obtain_fingerprint (cfg0\<lparr>PRUSA_FINGERPRINT := ''printer-7''\<rparr>) ev_ok one_camera
       = (Inr ''printer-7'', one_camera)"
proof -
  have h: "PRUSA_FINGERPRINT (cfg0\<lparr>PRUSA_FINGERPRINT := ''printer-7''\<rparr>) \<noteq> []" by simp
  from explicit_fingerprint_verbatim [OF h, of ev_ok one_camera] h show ?thesis by simp
qed

text \<open>
  Claim C9. When a first call of \<^verbatim>\<open>get_or_create_fingerprint\<close> has returned an identity,
  a second call on the world it left (with \<^verbatim>\<open>mkdir\<close> and \<^verbatim>\<open>read_text\<close> not failing)
  returns the same identity; it leaves every file as it was, its file-system operations
  are one \<^verbatim>\<open>mkdir\<close>, one \<^verbatim>\<open>exists\<close> and one read, with no write, and it logs that the
  fingerprint was loaded, not generated.
\<close>

theorem fingerprint_stable:
  assumes first: "fst (get_or_create_fingerprint cfg ev1 w) = Inr fp"
      and mk: "raises ev2 Mkdir = None" and rd: "raises ev2 ReadText = None"
  shows "fst (get_or_create_fingerprint cfg ev2 (snd (get_or_create_fingerprint cfg ev1 w)))
           = Inr fp
       \<and> files (snd (get_or_create_fingerprint cfg ev2
                        (snd (get_or_create_fingerprint cfg ev1 w))))
           = files (snd (get_or_create_fingerprint cfg ev1 w))
       \<and> fsops (snd (get_or_create_fingerprint cfg ev2
                        (snd (get_or_create_fingerprint cfg ev1 w))))
           = fsops (snd (get_or_create_fingerprint cfg ev1 w))
               @ [MkdirOp (CONFIG_DIR cfg), ExistsOp (FINGERPRINT_FILE cfg),
                  ReadOp (FINGERPRINT_FILE cfg)]
       \<and> logs (snd (get_or_create_fingerprint cfg ev2
                       (snd (get_or_create_fingerprint cfg ev1 w))))
           = logs (snd (get_or_create_fingerprint cfg ev1 w)) @ [LoadedFingerprint fp]"
proof -
  let ?w1 = "snd (get_or_create_fingerprint cfg ev1 w)"
  from fingerprint_stored [OF first] obtain content
    where c: "files ?w1 (FINGERPRINT_FILE cfg) = Some content"
      and s: "strip content = fp" and n: "fp \<noteq> []"
    by blast
  from n s have "strip content \<noteq> []" by simp
  from fingerprint_loaded [OF c this mk rd] s show ?thesis by simp
qed

theorem fingerprint_stable_witness:
  "fst (get_or_create_fingerprint cfg0 ev_ok one_camera)
     = Inr ''000000000000000000000000000000ff''
   \<and> fst (get_or_create_fingerprint cfg0 ev_401
            (snd (get_or_create_fingerprint cfg0 ev_ok one_camera)))
     = Inr ''000000000000000000000000000000ff''
   \<and> fsops (snd (get_or_create_fingerprint cfg0 ev_401
            (snd (get_or_create_fingerprint cfg0 ev_ok one_camera))))
     = fsops (snd (get_or_create_fingerprint cfg0 ev_ok one_camera))
         @ [MkdirOp (CONFIG_DIR cfg0), ExistsOp (FINGERPRINT_FILE cfg0),
            ReadOp (FINGERPRINT_FILE cfg0)]"
proof -
  have h: "fst (get_or_create_fingerprint cfg0 ev_ok one_camera)
             = Inr ''000000000000000000000000000000ff''"
    by (simp add: fingerprint_simps prog_simps example_simps hex32_255)
  have m: "raises ev_401 Mkdir = None" and r: "raises ev_401 ReadText = None"
    by (simp_all add: ev_401_def calm_def)
  from fingerprint_stable [OF h m r] h show ?thesis by simp
qed

subsection \<open>The capture\<close>

text \<open>
  Claim C10. When \<^verbatim>\<open>capture_jpeg\<close> returns, the bytes it returns are the image the
  camera encoded; the file system is the one before the call with no file at
  \<^verbatim>\<open>/tmp/prusa_snapshot.jpg\<close>; and the file-system operations of the call are the write
  of the image to that path, its read-back and its removal.
\<close>

theorem snapshot_file_removed:
  assumes "fst (capture_jpeg cfg ev picam w) = Inr jpeg"
  shows "jpeg = image ev
       \<and> files (snd (capture_jpeg cfg ev picam w)) = (files w)(tmp := None)
       \<and> fsops (snd (capture_jpeg cfg ev picam w)) =
           fsops w @ [WriteOp tmp (image ev), ReadOp tmp, UnlinkOp tmp]"
  using assms
  by (simp add: capture_simps prog_simps split: option.splits)

theorem snapshot_file_removed_witness:
  "fst (capture_jpeg cfg0 ev_ok 0 one_camera) = Inr ''JPEG''
   \<and> files (snd (capture_jpeg cfg0 ev_ok 0 one_camera)) tmp = None
   \<and> fsops (snd (capture_jpeg cfg0 ev_ok 0 one_camera)) =
       [WriteOp tmp ''JPEG'', ReadOp tmp, UnlinkOp tmp]"
proof -
  have h: "fst (capture_jpeg cfg0 ev_ok 0 one_camera) = Inr ''JPEG''"
    by (simp add: capture_simps prog_simps example_simps)
  have i: "image ev_ok = ''JPEG''" "fsops one_camera = []"
    by (simp_all add: example_simps)
  from snapshot_file_removed [OF h] i h show ?thesis by simp
qed




subsection \<open>The upload\<close>

text \<open>
  Claim C2 as stated fails: \<^verbatim>\<open>upload_snapshot\<close> returns no outcome value. A response
  with status 401 leaves it as the exception \<^verbatim>\<open>HTTPError\<close>, a timeout as the exception
  raised by \<^verbatim>\<open>requests.put\<close>.
\<close>

theorem upload_raises_to_caller:
  "fst (upload_snapshot cfg0 ev_401 ''JPEG'' ''secret'' ''printer-7'' one_camera)
     = Inl (HTTPError 401 ''Unauthorized'')
   \<and> fst (upload_snapshot cfg0 ev_timeout ''JPEG'' ''secret'' ''printer-7'' one_camera)
     = Inl (RequestException ''Read timed out.'')"
  by (simp add: upload_simps prog_simps example_simps)

text \<open>
  Claim C2, amended. \<^verbatim>\<open>upload_snapshot\<close> sends one PUT request with the four headers
  and the image as body. It returns normally exactly when the exchange completes with
  a status code outside 400..599; a response with a status code in 400..599 is raised
  to the caller as \<^verbatim>\<open>HTTPError\<close> carrying the status and the body, and a transport failure
  is propagated as the exception raised by \<^verbatim>\<open>requests.put\<close>.
\<close>

theorem upload_outcome:
  "fst (upload_snapshot cfg ev jpeg_bytes token fingerprint w) =
     (case put ev \<lparr>url = PRUSA_URL cfg,
                   headers = [(''accept'', ''*/*''), (''content-type'', ''image/jpeg''),
                              (''token'', token), (''fingerprint'', fingerprint)],
                   data = jpeg_bytes\<rparr> of
        Inl e \<Rightarrow> Inl e
      | Inr resp \<Rightarrow>
          if 400 \<le> status_code resp \<and> status_code resp < 600
          then Inl (HTTPError (status_code resp) (text_of resp))
          else Inr ())"
  by (simp add: upload_simps prog_simps split: sum.splits)

theorem upload_outcome_witness:
  "fst (upload_snapshot cfg0 ev_ok ''JPEG'' ''secret'' ''printer-7'' one_camera) = Inr ()"
  using upload_outcome [of cfg0 ev_ok "''JPEG''" "''secret''" "''printer-7''" one_camera]
  by (simp add: example_simps)

subsection \<open>The backoff of one cycle\<close>

text \<open>Both handlers assign the same value; the normal path assigns the base interval.\<close>

lemma cycle_backoff:
  "fst (cycle cfg ev picam fp backoff w) =
     (case fst (try_body cfg ev picam fp w) of
        Inr _ \<Rightarrow> INTERVAL_SEC cfg
      | Inl e \<Rightarrow> min (max (INTERVAL_SEC cfg * 3) 15) 120)"
  by (cases "try_body cfg ev picam fp w")
     (auto simp: cycle_def split: sum.splits exn.splits prod.splits)

lemma try_body_success:
  assumes "fst (capture_jpeg cfg ev picam w) = Inr jpeg"
      and "fst (upload_snapshot cfg ev jpeg (PRUSA_TOKEN cfg) fp
                  (snd (capture_jpeg cfg ev picam w))) = Inr ()"
  shows "fst (try_body cfg ev picam fp w) = Inr ()"
  using assms by (cases "capture_jpeg cfg ev picam w") (auto simp: try_body_def bnd_def)

lemma try_body_ok: "fst (try_body cfg0 ev_ok 0 ''printer-7'' one_camera) = Inr ()"
  by (simp add: try_body_def capture_simps upload_simps prog_simps example_simps)

lemma try_body_401:
  "fst (try_body cfg ev_401 0 fp one_camera) = Inl (HTTPError 401 ''Unauthorized'')"
  by (simp add: try_body_def capture_simps upload_simps prog_simps example_simps)

text \<open>
  Claim C5. When the capture and then the upload of a cycle return normally, the
  backoff after the cycle is the base interval, whatever it was before.
\<close>

theorem backoff_reset_on_success:
  assumes "fst (capture_jpeg cfg ev picam w) = Inr jpeg"
      and "fst (upload_snapshot cfg ev jpeg (PRUSA_TOKEN cfg) fingerprint
                  (snd (capture_jpeg cfg ev picam w))) = Inr ()"
  shows "fst (cycle cfg ev picam fingerprint backoff w) = INTERVAL_SEC cfg"
  using try_body_success [OF assms] by (simp add: cycle_backoff)

theorem backoff_reset_on_success_witness:
  "fst (capture_jpeg cfg0 ev_ok 0 one_camera) = Inr ''JPEG''
   \<and> fst (upload_snapshot cfg0 ev_ok ''JPEG'' (PRUSA_TOKEN cfg0) ''printer-7''
            (snd (capture_jpeg cfg0 ev_ok 0 one_camera))) = Inr ()
   \<and> fst (cycle cfg0 ev_ok 0 ''printer-7'' 120 one_camera) = 10"
proof -
  have c: "fst (capture_jpeg cfg0 ev_ok 0 one_camera) = Inr ''JPEG''"
    by (simp add: capture_simps prog_simps example_simps)
  have u: "fst (upload_snapshot cfg0 ev_ok ''JPEG'' (PRUSA_TOKEN cfg0) ''printer-7''
                  (snd (capture_jpeg cfg0 ev_ok 0 one_camera))) = Inr ()"
    by (simp add: upload_simps prog_simps ev_ok_def calm_def answer_def)
  have i: "INTERVAL_SEC cfg0 = 10" by (simp add: cfg0_def)
  from backoff_reset_on_success [OF c u, of 120] c u i show ?thesis by simp
qed



subsection \<open>The loop\<close>

text \<open>Without a signal the wait changes nothing; the body of the \<^verbatim>\<open>try\<close> statement
  never touches \<^verbatim>\<open>running\<close> and never logs the line of the wait.\<close>

lemma wait_loop_no_signal: "sig_wait ev = None \<Longrightarrow> wait_loop ev n k w = w"
  by (induction n arbitrary: k) simp_all

lemma try_body_running: "running (snd (try_body cfg ev picam fp w)) = running w"
  by (simp add: try_body_def capture_simps upload_simps prog_simps
           split: option.splits sum.splits)

lemma try_body_next:
  "filter is_next (logs (snd (try_body cfg ev picam fp w))) = filter is_next (logs w)"
  by (simp add: try_body_def capture_simps upload_simps prog_simps is_next_def
           split: option.splits sum.splits)

text \<open>
  A cycle without a signal: whatever the body of the \<^verbatim>\<open>try\<close> statement did, the
  handlers only add log records, and the cycle ends with the record of the wait.
\<close>

lemma cycle_world:
  assumes "\<not> sig_work ev" and "sig_wait ev = None"
  shows "\<exists>rs. (\<forall>r \<in> set rs. \<not> is_next r)
             \<and> snd (cycle cfg ev picam fp b w) =
                 (snd (try_body cfg ev picam fp w))
                   \<lparr>logs := logs (snd (try_body cfg ev picam fp w)) @ rs
                             @ [NextSnapshot (fst (cycle cfg ev picam fp b w))]\<rparr>"
proof (cases "try_body cfg ev picam fp w")
  case (Pair r w1)
  show ?thesis
  proof (cases r)
    case (Inr u)
    with Pair assms have "snd (cycle cfg ev picam fp b w) =
        w1\<lparr>logs := logs w1 @ [] @ [NextSnapshot (fst (cycle cfg ev picam fp b w))]\<rparr>"
      by (simp add: cycle_def wait_loop_no_signal logger_def)
    with Pair show ?thesis by (intro exI [of _ "[]"]) simp
  next
    case (Inl e)
    show ?thesis
    proof (cases e)
      case (HTTPError code body)
      with Inl Pair assms have "snd (cycle cfg ev picam fp b w) =
          w1\<lparr>logs := logs w1 @ [HttpError code body]
                        @ [NextSnapshot (fst (cycle cfg ev picam fp b w))]\<rparr>"
        by (simp add: cycle_def wait_loop_no_signal logger_def)
      with Pair show ?thesis
        by (intro exI [of _ "[HttpError code body]"]) (simp add: is_next_def)
    qed (use Inl Pair assms in \<open>auto simp: cycle_def wait_loop_no_signal logger_def is_next_def
           intro!: exI [of _ "[UnexpectedError e]"]\<close>)
  qed
qed

lemma cycle_running:
  assumes "\<not> sig_work ev" and "sig_wait ev = None"
  shows "running (snd (cycle cfg ev picam fp b w)) = running w"
proof -
  from cycle_world [OF assms, of cfg picam fp b w] obtain rs where
    "snd (cycle cfg ev picam fp b w) =
       (snd (try_body cfg ev picam fp w))
         \<lparr>logs := logs (snd (try_body cfg ev picam fp w)) @ rs
                   @ [NextSnapshot (fst (cycle cfg ev picam fp b w))]\<rparr>"
    by blast
  then have "running (snd (cycle cfg ev picam fp b w))
               = running (snd (try_body cfg ev picam fp w))"
    by simp
  then show ?thesis by (simp add: try_body_running)
qed

lemma cycle_next:
  assumes "\<not> sig_work ev" and "sig_wait ev = None"
  shows "length (filter is_next (logs (snd (cycle cfg ev picam fp b w))))
           = Suc (length (filter is_next (logs w)))"
proof -
  from cycle_world [OF assms, of cfg picam fp b w] obtain rs where
    rs: "\<forall>r \<in> set rs. \<not> is_next r" and
    "snd (cycle cfg ev picam fp b w) =
       (snd (try_body cfg ev picam fp w))
         \<lparr>logs := logs (snd (try_body cfg ev picam fp w)) @ rs
                   @ [NextSnapshot (fst (cycle cfg ev picam fp b w))]\<rparr>"
    by blast
  then have "filter is_next (logs (snd (cycle cfg ev picam fp b w)))
               = filter is_next (logs (snd (try_body cfg ev picam fp w))) @ filter is_next rs
                   @ [NextSnapshot (fst (cycle cfg ev picam fp b w))]"
    by (simp add: is_next_def)
  moreover from rs have "filter is_next rs = []" by (simp add: filter_empty_conv)
  ultimately show ?thesis by (simp add: try_body_next)
qed

text \<open>
  Claim C3. Run the loop against any cycles in which no termination signal arrives,
  whatever the camera, the disk and the network do in them (any call may raise, the
  server may answer with any status): when \<^verbatim>\<open>running\<close> holds at the start, the loop
  is still going after the last of them, \<^verbatim>\<open>running\<close> still holds, and every one of
  the cycles has reached its wait (one \<^verbatim>\<open>Next snapshot\<close> record for each). So the loop
  is left only after a signal has set \<^verbatim>\<open>running\<close> to false.
\<close>

theorem failures_never_stop_loop:
  assumes "running w" and "\<forall>ev \<in> set evs. \<not> sig_work ev \<and> sig_wait ev = None"
  shows "fst (main_loop cfg evs picam fingerprint backoff w) = Looping
       \<and> running (snd (snd (main_loop cfg evs picam fingerprint backoff w)))
       \<and> length (filter is_next
                   (logs (snd (snd (main_loop cfg evs picam fingerprint backoff w)))))
           = length (filter is_next (logs w)) + length evs"
  using assms
proof (induction evs arbitrary: backoff w)
  case Nil
  then show ?case by simp
next
  case (Cons ev evs)
  from Cons.prems have quiet: "\<not> sig_work ev" "sig_wait ev = None" by simp_all
  obtain b' w' where c: "cycle cfg ev picam fingerprint backoff w = (b', w')"
    by (cases "cycle cfg ev picam fingerprint backoff w")
  from cycle_running [OF quiet, of cfg picam fingerprint backoff w] c Cons.prems(1)
  have r: "running w'" by simp
  from cycle_next [OF quiet, of cfg picam fingerprint backoff w] c
  have n: "length (filter is_next (logs w')) = Suc (length (filter is_next (logs w)))"
    by simp
  from Cons.prems have "\<forall>ev \<in> set evs. \<not> sig_work ev \<and> sig_wait ev = None" by simp
  from Cons.IH [OF r this, of b'] n c Cons.prems(1) show ?case by simp
qed

theorem failures_never_stop_loop_witness:
  "running one_camera
   \<and> fst (main_loop cfg0 [ev_capture_fails, ev_401, ev_timeout] 0 ''printer-7'' 10 one_camera)
       = Looping
   \<and> length (filter is_next (logs (snd (snd
        (main_loop cfg0 [ev_capture_fails, ev_401, ev_timeout] 0 ''printer-7'' 10
           one_camera))))) = 3"
proof -
  have r: "running one_camera" and l: "logs one_camera = []"
    by (simp_all add: one_camera_def initial_world_def)
  have q: "\<forall>ev \<in> set [ev_capture_fails, ev_401, ev_timeout].
             \<not> sig_work ev \<and> sig_wait ev = None"
    by (simp add: ev_capture_fails_def ev_401_def ev_timeout_def ev_ok_def calm_def)
  from failures_never_stop_loop [OF r q, of cfg0 0 "''printer-7''" 10] r l
  show ?thesis by simp
qed

text \<open>Once \<^verbatim>\<open>running\<close> is false the loop is left at its next test.\<close>

lemma loop_exits_when_stopped:
  "\<not> running w \<Longrightarrow> main_loop cfg evs picam fp b w = (Returned, b, logger Exiting w)"
  by (cases evs) simp_all

subsection \<open>The bounds of the backoff\<close>

lemma cycle_within_bounds:
  assumes "INTERVAL_SEC cfg \<le> maxInterval"
  shows "within_bounds cfg (fst (cycle cfg ev picam fp b w))"
  using assms by (auto simp: cycle_backoff within_bounds_def maxInterval_def split: sum.splits)

lemma main_loop_within_bounds:
  assumes "INTERVAL_SEC cfg \<le> maxInterval" and "within_bounds cfg b"
  shows "within_bounds cfg (fst (snd (main_loop cfg evs picam fp b w)))"
  using assms(2)
proof (induction evs arbitrary: b w)
  case Nil
  then show ?case by simp
next
  case (Cons ev evs)
  obtain b' w' where c: "cycle cfg ev picam fp b w = (b', w')"
    by (cases "cycle cfg ev picam fp b w")
  from cycle_within_bounds [OF assms(1), of ev picam fp b w] c
  have "within_bounds cfg b'" by simp
  from Cons.IH [OF this, of w'] Cons.prems c show ?case by simp
qed

text \<open>
  Claim C6, amended. When the base interval is at most the maximal interval 120, the
  backoff lies between the base interval and 120 at the start and after every sequence
  of cycles, whatever their outcomes.
\<close>

theorem backoff_within_bounds:
  assumes "INTERVAL_SEC cfg \<le> maxInterval"
  shows "within_bounds cfg
           (fst (snd (main_loop cfg evs picam fingerprint (INTERVAL_SEC cfg) w)))"
  using assms main_loop_within_bounds [OF assms, of "INTERVAL_SEC cfg"]
  by (simp add: within_bounds_def)

lemma main_loop_single:
  "fst (snd (main_loop cfg [ev] picam fp b w)) =
     (if running w then fst (cycle cfg ev picam fp b w) else b)"
  by (cases "cycle cfg ev picam fp b w") simp

theorem backoff_within_bounds_witness:
  "INTERVAL_SEC cfg0 \<le> maxInterval
   \<and> within_bounds cfg0
       (fst (snd (main_loop cfg0 [ev_401, ev_ok, ev_capture_fails] 0 ''printer-7''
                    (INTERVAL_SEC cfg0) one_camera)))"
proof -
  have h: "INTERVAL_SEC cfg0 \<le> maxInterval" by (simp add: cfg0_def maxInterval_def)
  show ?thesis by (intro conjI h backoff_within_bounds [OF h])
qed

text \<open>
  Claim C6 as stated fails for a base interval above 120: with the base interval 200
  the backoff starts at 200, above the maximal interval, and after one failed cycle it
  is 120, below the base interval.
\<close>

theorem backoff_below_base_interval:
  "INTERVAL_SEC cfg200 = 200
   \<and> \<not> within_bounds cfg200 (INTERVAL_SEC cfg200)
   \<and> fst (snd (main_loop cfg200 [ev_401] 0 ''printer-7'' (INTERVAL_SEC cfg200) one_camera)) = 120
   \<and> \<not> within_bounds cfg200
         (fst (snd (main_loop cfg200 [ev_401] 0 ''printer-7'' (INTERVAL_SEC cfg200) one_camera)))"
proof -
  have i: "INTERVAL_SEC cfg200 = 200" by (simp add: cfg200_def cfg0_def)
  have r: "running one_camera" by (simp add: one_camera_def initial_world_def)
  have "fst (cycle cfg200 ev_401 0 ''printer-7'' 200 one_camera) = 120"
    by (simp add: cycle_backoff try_body_401 i)
  moreover from r have
    "fst (snd (main_loop cfg200 [ev_401] 0 ''printer-7'' 200 one_camera))
       = fst (cycle cfg200 ev_401 0 ''printer-7'' 200 one_camera)"
    by (simp only: main_loop_single if_True)
  ultimately have
    "fst (snd (main_loop cfg200 [ev_401] 0 ''printer-7'' (INTERVAL_SEC cfg200) one_camera)) = 120"
    by (simp only: i)
  with i show ?thesis by (simp add: within_bounds_def maxInterval_def)
qed

subsection \<open>The focus\<close>

lemmas float_simps = py_float_def strip_def is_space_def split_sign_def lower_def
  lower_char_def is_digit_def digit_val_def skip_underscore_def exponent_def numeral_of_def

lemma float_12: "py_float ''1.2'' = Some (Dec False 12 (- 1))"
  by (simp add: float_simps)


lemma float_empty: "py_float [] = None"
  by (simp add: float_simps)


lemma af_request_man_12:
  "af_request cfg (Some [''man'', p]) = (''man'', Some p)"
  by (simp add: af_request_def lower_def lower_char_def)


text \<open>
  With the mode \<^verbatim>\<open>man\<close> or \<^verbatim>\<open>manual\<close> the first two tests of \<^verbatim>\<open>configure_autofocus\<close>
  fail and the third branch is taken.
\<close>

lemma manual_mode_branch:
  assumes "mode \<in> set [''man'', ''manual'']"
  shows "mode \<notin> set [''cont'', ''continuous'']" and "mode \<notin> set [''auto'', ''af'']"
  using assms by auto

lemma configure_autofocus_manual:
  assumes "af_request cfg cli_af = (mode, pos)" and "mode \<in> set [''man'', ''manual'']"
  shows "configure_autofocus cfg ev picam cli_af w =
           (case (if pos = Some [] then None else pos) of
              None \<Rightarrow>
                raise (ValueError ''Manual mode requires a lens position, e.g. --af man 1.2'')
            | Some p \<Rightarrow>
                (case py_float p of
                   None \<Rightarrow> raise (ValueError (''Invalid manual lens position: '' @ p))
                 | Some lens_pos \<Rightarrow> set_controls ev picam Manual (Some lens_pos)))
             (logger (ConfiguringAutofocus mode pos) w)"
  using manual_mode_branch [OF assms(2)] assms(2)
  by (simp only: configure_autofocus_def assms(1) prod.case sum.case bnd_def info_def
        if_False if_True)


lemma configure_autofocus_accepts:
  assumes "af_request cfg cli_af = (mode, Some p)" and "mode \<in> set [''man'', ''manual'']"
      and "py_float p = Some x" and "raises ev SetControls = None"
  shows "configure_autofocus cfg ev picam cli_af w =
           (Inr (), upd_cam picam (\<lambda>c. c\<lparr>AfMode := Some Manual, LensPosition := Some x\<rparr>)
                      (logger (ConfiguringAutofocus mode (Some p)) w))"
proof -
  from assms(3) float_empty have "p \<noteq> []" by auto
  with assms(3,4) show ?thesis
    by (simp add: configure_autofocus_manual [OF assms(1,2)] set_controls_def ext_def)
qed






text \<open>
  The camera object that \<^verbatim>\<open>configure_autofocus\<close> configures is the one made by the
  script before \<^verbatim>\<open>main\<close>; \<^verbatim>\<open>main\<close> makes its own camera object, sets the continuous
  mode on it and captures with it. After a start with \<^verbatim>\<open>--af man 1.2\<close> and one cycle
  there are two camera objects: the first holds the manual lens position and was never
  configured for a still; the second, which took the picture, is in continuous mode
  with no lens position.
\<close>

lemma capture_camera_is_continuous:
  "map AfMode (cams (snd (script cfg0 (Some [''man'', ''1.2'']) ev_ok ev_ok [ev_ok]
                            (initial_world Map.empty))))
     = [Some Manual, Some Continuous]
   \<and> map LensPosition (cams (snd (script cfg0 (Some [''man'', ''1.2'']) ev_ok ev_ok [ev_ok]
                                    (initial_world Map.empty))))
     = [Some (Dec False 12 (- 1)), None]
   \<and> map still_size (cams (snd (script cfg0 (Some [''man'', ''1.2'']) ev_ok ev_ok [ev_ok]
                                  (initial_world Map.empty))))
     = [None, Some (1280, 720)]"
proof -
  have m: "''man'' \<in> set [''man'', ''manual'']" by simp
  have r: "raises ev_ok SetControls = None" by (simp add: example_simps)
  note c = configure_autofocus_accepts [OF af_request_man_12 [of cfg0 "''1.2''"] m float_12 r,
      unfolded cfg0_def ev_ok_def calm_def]
  have q: "sig_wait ev_ok = None" by (simp add: example_simps)
  show ?thesis
    by (simp add: script_def main_def Picamera2_def c obtain_fingerprint_def
          fingerprint_simps set_controls_def cycle_def try_body_def capture_simps upload_simps
          wait_loop_no_signal prog_simps example_simps)
qed

end
